theory Spec2Isabelle
  imports Complex_Main
begin

section \<open>Pylot\_demo.py as a sequence of state transformers\<close>

text \<open>
  The script has no functions: it is a flat list of top-level statements. Each statement
  becomes one definition, named after its source line, and the script is the list of its
  top-level statements in source order. A statement transforms the interpreter state and
  either completes or raises; the state it leaves behind is kept in both cases, as the
  Python interpreter keeps the effects that happened before an exception.
\<close>

subsection \<open>Values, exceptions and observable events\<close>

datatype exn = ZeroDivisionError | NameError string | ValueError | ModuleNotFoundError string

datatype pyval = Str string | Float real

datatype colour = Default_colour | Plasma real

text \<open>
  Every interaction with the outside world is recorded, in order, in the trace:
  text written to standard output, a sleep of so many seconds, an import, and the calls
  into the plotting library with the argument values they receive. Arrays are lists of
  numbers; floating-point numbers are idealised as reals.
\<close>

datatype event =
    Write string
  | Sleep nat
  | Import string
  | Figure nat
  | Plot "real list" "real list" colour "real option" "real option"
  | Fill_between "real list" "real list" "real list" real
  | Show

datatype call_kind = KWrite | KSleep | KImport | KFigure | KPlot | KFill | KShow

fun kind :: "event \<Rightarrow> call_kind" where
  "kind (Write w) = KWrite"
| "kind (Sleep d) = KSleep"
| "kind (Import m) = KImport"
| "kind (Figure k) = KFigure"
| "kind (Plot x y c a l) = KPlot"
| "kind (Fill_between x y1 y2 a) = KFill"
| "kind Show = KShow"

fun written :: "event \<Rightarrow> string" where
  "written (Write w) = w"
| "written e = []"

subsection \<open>Interpreter state\<close>

text \<open>
  \<open>argv\<close>, \<open>environ\<close> and \<open>files\<close> are the process's command line, environment and
  file system. \<open>float_repr\<close> is Python's conversion of a float to text and \<open>rng\<close> the
  stream of pseudo-random draws of the numeric library, \<open>rng_pos\<close> counting the draws
  consumed; neither is part of this repository. \<open>installed\<close> holds the names of the
  packages that can be imported where the script runs, \<open>modules\<close> the names bound by
  import statements. The \<open>v_\<close> fields are the script's variables, \<open>None\<close> while unbound.
\<close>

record state =
  argv :: "string list"
  environ :: "string \<rightharpoonup> string"
  files :: "string \<rightharpoonup> string"
  installed :: "string set"
  float_repr :: "real \<Rightarrow> string"
  rng :: "nat \<Rightarrow> real"
  rng_pos :: nat
  modules :: "string set"
  trace :: "event list"
  v_multiline :: "string option"
  v_i :: "int option"
  v_fig :: "nat option"
  v_x :: "real list option"
  v_y :: "real list option"
  v_n :: "int option"
  v_r0 :: "real option"
  v_r1 :: "real option"
  v_t :: "real list option"

definition initial ::
  "string list \<Rightarrow> (string \<rightharpoonup> string) \<Rightarrow> (string \<rightharpoonup> string) \<Rightarrow> string set \<Rightarrow>
     (real \<Rightarrow> string) \<Rightarrow> (nat \<Rightarrow> real) \<Rightarrow> state"
where
  "initial av env fs inst fr g =
     \<lparr>argv = av, environ = env, files = fs, installed = inst, float_repr = fr, rng = g,
      rng_pos = 0,
      modules = {}, trace = [],
      v_multiline = None, v_i = None, v_fig = None, v_x = None, v_y = None,
      v_n = None, v_r0 = None, v_r1 = None, v_t = None\<rparr>"

definition stdout_of :: "state \<Rightarrow> string" where
  "stdout_of s = concat (map written (trace s))"

subsection \<open>Statements: completion or exception, with the state left behind\<close>

type_synonym 'a prog = "state \<Rightarrow> (exn + 'a) \<times> state"

definition py_return :: "'a \<Rightarrow> 'a prog" where
  "py_return v s = (Inr v, s)"

definition py_raise :: "exn \<Rightarrow> 'a prog" where
  "py_raise e s = (Inl e, s)"

definition py_bind :: "'a prog \<Rightarrow> ('a \<Rightarrow> 'b prog) \<Rightarrow> 'b prog" where
  "py_bind m f s =
     (case fst (m s) of
        Inl e \<Rightarrow> (Inl e, snd (m s))
      | Inr v \<Rightarrow> f v (snd (m s)))"

definition py_seq :: "unit prog \<Rightarrow> 'b prog \<Rightarrow> 'b prog" where
  "py_seq m k = py_bind m (\<lambda>u. k)"

definition py_discard :: "'a prog \<Rightarrow> unit prog" where
  "py_discard m = py_bind m (\<lambda>v. py_return ())"

fun exec_all :: "unit prog list \<Rightarrow> state \<Rightarrow> (exn + unit) \<times> state" where
  "exec_all [] s = py_return () s"
| "exec_all (st # sts) s = py_seq st (exec_all sts) s"

text \<open>
  \<open>for target in values: body\<close>: the target is assigned before each run of the body; an
  exception in the body leaves the loop.
\<close>

fun py_for :: "'a list \<Rightarrow> ('a \<Rightarrow> unit prog) \<Rightarrow> unit prog \<Rightarrow> state \<Rightarrow> (exn + unit) \<times> state" where
  "py_for [] target body s = py_return () s"
| "py_for (v # vs) target body s =
     py_seq (target v) (py_seq body (py_for vs target body)) s"

definition emit :: "event \<Rightarrow> unit prog" where
  "emit e s = (Inr (), s\<lparr>trace := trace s @ [e]\<rparr>)"

definition assign :: "(state \<Rightarrow> state) \<Rightarrow> unit prog" where
  "assign upd s = (Inr (), upd s)"

definition get_var :: "string \<Rightarrow> (state \<Rightarrow> 'a option) \<Rightarrow> 'a prog" where
  "get_var name field s =
     (case field s of None \<Rightarrow> (Inl (NameError name), s) | Some v \<Rightarrow> (Inr v, s))"

definition py_module :: "string \<Rightarrow> unit prog" where
  "py_module name s = (if name \<in> modules s then (Inr (), s) else (Inl (NameError name), s))"

text \<open>
  \<open>import name\<close> and \<open>import name as alias\<close>: a module built into the interpreter is
  always found, any other only where its package is installed; the statement raises
  ModuleNotFoundError otherwise and binds nothing.
\<close>

definition builtin_modules :: "string set" where
  "builtin_modules = {''time''}"

definition py_import :: "string \<Rightarrow> string \<Rightarrow> unit prog" where
  "py_import name alias s =
     (if name \<in> builtin_modules \<or> name \<in> installed s
      then (Inr (), s\<lparr>modules := insert alias (modules s), trace := trace s @ [Import name]\<rparr>)
      else (Inl (ModuleNotFoundError name), s))"

subsection \<open>Built-in operations\<close>

definition newline :: string where
  "newline = [CHR 0x0A]"

fun join_sep :: "string \<Rightarrow> string list \<Rightarrow> string" where
  "join_sep sep [] = []"
| "join_sep sep [w] = w"
| "join_sep sep (w # ws) = w @ sep @ join_sep sep ws"

fun py_str :: "(real \<Rightarrow> string) \<Rightarrow> pyval \<Rightarrow> string" where
  "py_str fr (Str w) = w"
| "py_str fr (Float r) = fr r"

text \<open>\<open>print(a, b, ...)\<close>: the texts of the arguments, separated by one space, then a newline.\<close>

definition py_print :: "pyval list \<Rightarrow> unit prog" where
  "py_print args s = emit (Write (join_sep '' '' (map (py_str (float_repr s)) args) @ newline)) s"

text \<open>\<open>text * count\<close>: repetition; a count below one gives the empty string.\<close>

definition str_mul :: "string \<Rightarrow> int \<Rightarrow> string" where
  "str_mul w k = concat (replicate (nat k) w)"

text \<open>\<open>a / b\<close> on numbers: Python raises where HOL's division would return 0.\<close>

definition py_truediv :: "real \<Rightarrow> real \<Rightarrow> real prog" where
  "py_truediv a b = (if b = 0 then py_raise ZeroDivisionError else py_return (a / b))"

subsection \<open>Library calls\<close>

definition time_sleep :: "nat \<Rightarrow> unit prog" where
  "time_sleep secs = emit (Sleep secs)"

definition linspace :: "real \<Rightarrow> real \<Rightarrow> nat \<Rightarrow> real list" where
  "linspace a b k = map (\<lambda>j. a + (b - a) * real j / real (k - 1)) [0..<k]"

fun cumsum_from :: "real \<Rightarrow> real list \<Rightarrow> real list" where
  "cumsum_from acc [] = []"
| "cumsum_from acc (v # vs) = (acc + v) # cumsum_from (acc + v) vs"

definition cumsum :: "real list \<Rightarrow> real list" where
  "cumsum vs = cumsum_from 0 vs"

text \<open>\<open>numpy.random.randn(k)\<close> and \<open>numpy.random.rand(k)\<close>: the next \<open>k\<close> draws of the generator.\<close>

definition random_draw :: "nat \<Rightarrow> real list prog" where
  "random_draw k s = (Inr (map (rng s) [rng_pos s..<rng_pos s + k]), s\<lparr>rng_pos := rng_pos s + k\<rparr>)"

text \<open>Arithmetic of an array with a number acts on every element.\<close>

definition arr_scale :: "real \<Rightarrow> real list \<Rightarrow> real list" where
  "arr_scale c vs = map (\<lambda>v. c * v) vs"

definition arr_shift :: "real list \<Rightarrow> real \<Rightarrow> real list" where
  "arr_shift vs c = map (\<lambda>v. v + c) vs"

definition arr_div :: "real list \<Rightarrow> real \<Rightarrow> real list" where
  "arr_div vs c = map (\<lambda>v. v / c) vs"

definition arr_rsub :: "real \<Rightarrow> real list \<Rightarrow> real list" where
  "arr_rsub c vs = map (\<lambda>v. c - v) vs"

text \<open>Arithmetic of two arrays of one length acts element by element.\<close>

definition arr_add :: "real list \<Rightarrow> real list \<Rightarrow> real list" where
  "arr_add us vs = map2 (+) us vs"

definition arr_sub :: "real list \<Rightarrow> real list \<Rightarrow> real list" where
  "arr_sub us vs = map2 (-) us vs"

definition arr_mul :: "real list \<Rightarrow> real list \<Rightarrow> real list" where
  "arr_mul us vs = map2 (*) us vs"

definition plt_figure :: "nat prog" where
  "plt_figure s =
     (let k = Suc (length (filter (\<lambda>e. kind e = KFigure) (trace s)))
      in (Inr k, s\<lparr>trace := trace s @ [Figure k]\<rparr>))"

text \<open>The plotting library rejects coordinate arrays of different lengths.\<close>

definition plt_plot :: "real list \<Rightarrow> real list \<Rightarrow> colour \<Rightarrow> real option \<Rightarrow> real option \<Rightarrow> unit prog" where
  "plt_plot x y c a l =
     (if length x = length y then emit (Plot x y c a l) else py_raise ValueError)"

definition plt_fill_between :: "real list \<Rightarrow> real list \<Rightarrow> real list \<Rightarrow> real \<Rightarrow> unit prog" where
  "plt_fill_between x y1 y2 a =
     (if length x = length y1 \<and> length x = length y2
      then emit (Fill_between x y1 y2 a) else py_raise ValueError)"

definition plt_show :: "unit prog" where
  "plt_show = emit Show"

subsection \<open>The statements of the script, by source line\<close>

definition line_6 :: "unit prog" where
  "line_6 = py_print [Str ''hello world!'']"

text \<open>
  Line 9 is an expression statement: evaluating it gives a value. Run as part of the
  script the value is dropped (\<open>py_discard\<close>); an interactive front end displays it.
\<close>

definition line_9 :: "int prog" where
  "line_9 = py_return (1 + 2)"

definition line_12 :: "unit prog" where
  "line_12 = assign (\<lambda>s. s\<lparr>v_multiline :=
     Some (''Multi-line commands without'' @ [CHR 0x0A] @
           ''indent can be executed with the cursor'' @ [CHR 0x0A] @
           ''anywhere in the block'')\<rparr>)"

definition line_17 :: "unit prog" where
  "line_17 = py_import ''time'' ''time''"

definition line_19 :: "unit prog" where
  "line_19 = py_bind (get_var ''i'' v_i) (\<lambda>i. py_print [Str ''Wait'', Str (str_mul ''* '' i)])"

definition line_20 :: "unit prog" where
  "line_20 = py_seq (py_module ''time'') (time_sleep 1)"

definition line_18 :: "unit prog" where
  "line_18 = py_for [5, 4, 3, 2, 1] (\<lambda>v. assign (\<lambda>s. s\<lparr>v_i := Some v\<rparr>))
     (exec_all [line_19, line_20])"

definition line_23 :: "unit prog" where
  "line_23 = py_print [Str ''We divide 5 by zero:'']"

text \<open>The arguments of \<open>print\<close> are evaluated before the call: the quotient comes first.\<close>

definition line_24 :: "unit prog" where
  "line_24 = py_bind (py_truediv 5 0) (\<lambda>q. py_print [Str ''The result is:'', Float q])"

definition line_22 :: "unit prog" where
  "line_22 = (if True then exec_all [line_23, line_24] else py_return ())"

definition line_28 :: "unit prog" where
  "line_28 = py_import ''numpy'' ''numpy''"

definition line_29 :: "unit prog" where
  "line_29 = py_import ''matplotlib.pyplot'' ''plt''"

definition line_31 :: "unit prog" where
  "line_31 = py_seq (py_module ''plt'')
     (py_bind plt_figure (\<lambda>f. assign (\<lambda>s. s\<lparr>v_fig := Some f\<rparr>)))"

definition line_32 :: "unit prog" where
  "line_32 = py_seq (py_module ''numpy'') (assign (\<lambda>s. s\<lparr>v_x := Some (linspace 0 10 500)\<rparr>))"

definition line_34 :: "unit prog" where
  "line_34 = py_seq (py_module ''numpy'')
     (py_bind (random_draw 500) (\<lambda>r. assign (\<lambda>s. s\<lparr>v_y := Some (arr_scale 0.2 (cumsum r))\<rparr>)))"

definition line_35 :: "unit prog" where
  "line_35 = py_seq (py_module ''plt'')
     (py_bind (get_var ''x'' v_x) (\<lambda>x.
      py_bind (get_var ''y'' v_y) (\<lambda>y.
      py_bind (get_var ''i'' v_i) (\<lambda>i.
        plt_plot x (arr_shift y (of_int (5 * i))) Default_colour None None))))"

definition line_36 :: "unit prog" where
  "line_36 = py_seq (py_module ''plt'')
     (py_bind (get_var ''x'' v_x) (\<lambda>x.
      py_bind (get_var ''y'' v_y) (\<lambda>y.
      py_bind (get_var ''i'' v_i) (\<lambda>i.
        plt_fill_between x
          (arr_shift (arr_sub (arr_shift y (of_int (5 * i))) (arr_scale 0.1 y)) (- 1))
          (arr_shift (arr_add (arr_shift y (of_int (5 * i))) (arr_scale 0.1 y)) 1)
          0.2))))"

definition line_33 :: "unit prog" where
  "line_33 = py_for [1, 2, 3] (\<lambda>v. assign (\<lambda>s. s\<lparr>v_i := Some v\<rparr>))
     (exec_all [line_34, line_35, line_36])"

definition line_37 :: "unit prog" where
  "line_37 = py_seq (py_module ''plt'') plt_show"

definition line_41 :: "unit prog" where
  "line_41 = py_seq (py_module ''plt'')
     (py_bind plt_figure (\<lambda>f. assign (\<lambda>s. s\<lparr>v_fig := Some f\<rparr>)))"

text \<open>
  Line 42 evaluates the right-hand side first, then binds \<open>n\<close> and unpacks the array of
  two draws into \<open>r0\<close> and \<open>r1\<close>; unpacking an array of another length raises.
\<close>

definition line_42 :: "unit prog" where
  "line_42 = py_seq (py_module ''numpy'')
     (py_bind (random_draw 2) (\<lambda>r.
        py_seq (assign (\<lambda>s. s\<lparr>v_n := Some 100\<rparr>))
          (case r of
             [a, b] \<Rightarrow> assign (\<lambda>s. s\<lparr>v_r0 := Some a, v_r1 := Some b\<rparr>)
           | _ \<Rightarrow> py_raise ValueError)))"

definition line_44 :: "unit prog" where
  "line_44 = py_seq (py_module ''numpy'')
     (py_bind (get_var ''i'' v_i) (\<lambda>i.
        assign (\<lambda>s. s\<lparr>v_t := Some (linspace (of_int i) (of_int (i + 1)) 250)\<rparr>)))"

text \<open>
  In lines 45 and 46 an array is divided by \<open>n\<close>. The model has no infinities, so that
  division means what the library computes only for a divisor other than zero; the two
  lines run inside the loop over \<open>range(n)\<close>, which has no iteration unless \<open>n\<close> is
  at least one.
\<close>

definition line_45 :: "unit prog" where
  "line_45 =
     py_bind (get_var ''t'' v_t) (\<lambda>t.
     py_bind (get_var ''n'' v_n) (\<lambda>n.
     py_seq (py_module ''numpy'')
    (py_bind (get_var ''r0'' v_r0) (\<lambda>r0.
       assign (\<lambda>s. s\<lparr>v_x := Some
         (arr_mul (arr_rsub 1 (arr_div (arr_scale 0.9 t) (of_int n)))
                  (map cos (arr_scale (1.5 * 2 * pi) (arr_shift t r0))))\<rparr>)))))"

definition line_46 :: "unit prog" where
  "line_46 =
     py_bind (get_var ''t'' v_t) (\<lambda>t.
     py_bind (get_var ''n'' v_n) (\<lambda>n.
     py_seq (py_module ''numpy'')
    (py_bind (get_var ''r1'' v_r1) (\<lambda>r1.
       assign (\<lambda>s. s\<lparr>v_y := Some
         (arr_mul (arr_rsub 1 (arr_div (arr_scale 0.9 t) (of_int n)))
                  (arr_add (map sin (arr_scale (3.008 * 2 * pi) t))
                           (map sin (arr_scale (1.5 * pi) (arr_shift t r1)))))\<rparr>)))))"

definition line_47 :: "unit prog" where
  "line_47 = py_seq (py_module ''plt'')
     (py_bind (get_var ''x'' v_x) (\<lambda>x.
      py_bind (get_var ''y'' v_y) (\<lambda>y.
      py_bind (get_var ''i'' v_i) (\<lambda>i.
      py_bind (get_var ''n'' v_n) (\<lambda>n.
      py_bind (py_truediv (of_int i) (of_int n)) (\<lambda>c.
        plt_plot x y (Plasma c) (Some 0.9) (Some 0.8)))))))"

text \<open>\<open>range(n)\<close>: the integers from 0 up to \<open>n - 1\<close>, none when \<open>n\<close> is below one.\<close>

definition py_range :: "int \<Rightarrow> int list" where
  "py_range n = map int [0..<nat n]"

definition line_43 :: "unit prog" where
  "line_43 = py_bind (get_var ''n'' v_n) (\<lambda>n.
     py_for (py_range n) (\<lambda>v. assign (\<lambda>s. s\<lparr>v_i := Some v\<rparr>))
       (exec_all [line_44, line_45, line_46, line_47]))"

definition line_48 :: "unit prog" where
  "line_48 = py_seq (py_module ''plt'') plt_show"

subsection \<open>The script\<close>

text \<open>
  The top-level statements in source order. Lines 6 to 24 are the part up to the
  deliberate division by zero, lines 28 to 48 the two figures.
\<close>

definition upto_division :: "unit prog list" where
  "upto_division = [line_6, py_discard line_9, line_12, line_17, line_18, line_22]"

definition plotting :: "unit prog list" where
  "plotting = [line_28, line_29, line_31, line_32, line_33, line_37,
               line_41, line_42, line_43, line_48]"

definition script :: "unit prog list" where
  "script = upto_division @ plotting"

definition run_script :: "state \<Rightarrow> (exn + unit) \<times> state" where
  "run_script s = exec_all script s"

text \<open>
  A run with no arguments beyond the script's name, an empty environment and no files,
  where the two packages the script imports are installed.
\<close>

definition plain_start :: state where
  "plain_start = initial [''Pylot_demo.py''] Map.empty Map.empty
     {''numpy'', ''matplotlib.pyplot''} (\<lambda>r. ''0.0'') (\<lambda>k. 0)"

subsection \<open>States between statements\<close>

text \<open>
  What must hold before each plotting loop for it to run through: the modules it uses are
  imported and the variables it reads are bound, \<open>x\<close> to an array of 500 points before
  the first loop, \<open>n\<close> to a number other than zero before the second.
\<close>

definition ready_33 :: "state \<Rightarrow> bool" where
  "ready_33 s = (''numpy'' \<in> modules s \<and> ''plt'' \<in> modules s \<and> map_option length (v_x s) = Some 500)"

definition ready_43 :: "state \<Rightarrow> bool" where
  "ready_43 s = (''numpy'' \<in> modules s \<and> ''plt'' \<in> modules s \<and>
     v_n s \<noteq> None \<and> v_n s \<noteq> Some 0 \<and> v_r0 s \<noteq> None \<and> v_r1 s \<noteq> None)"

text \<open>A statement keeps \<open>multiline\<close> when no run of it, from any state, changes the variable.\<close>

definition keeps_multiline :: "'a prog \<Rightarrow> bool" where
  "keeps_multiline m = (\<forall>s. v_multiline (snd (m s)) = v_multiline s)"

text \<open>The states a plain run is in before line 18, before line 33 and before line 43.\<close>

definition before_line_18 :: state where
  "before_line_18 = snd (exec_all [line_6, py_discard line_9, line_12, line_17] plain_start)"

definition before_line_33 :: state where
  "before_line_33 = snd (exec_all [line_28, line_29, line_31, line_32] plain_start)"

definition before_line_43 :: state where
  "before_line_43 = snd (exec_all [line_28, line_29, line_41, line_42] plain_start)"

section \<open>Sequencing and loops\<close>

text \<open>
  The definitions of the statement combinators and built-in operations, for unfolding; a
  statement that completes hands its state to the next one, so a sequence can be run
  piece by piece.
\<close>

lemmas prog_defs = py_return_def py_raise_def py_bind_def py_seq_def py_discard_def emit_def assign_def
  get_var_def py_module_def py_import_def py_print_def str_mul_def py_truediv_def time_sleep_def newline_def builtin_modules_def

lemma py_seq_assoc: "py_seq (py_seq a b) c = py_seq a (py_seq b c)"
  by (rule ext) (simp add: py_seq_def py_bind_def split: sum.splits)

lemma py_seq_ok:
  "fst (a s) = Inr () \<Longrightarrow> py_seq a b s = b (snd (a s))"
  by (simp add: py_seq_def py_bind_def)

text \<open>
  The loop rule: when one iteration (assigning the target, then the body) started in a
  state satisfying \<open>I\<close> completes, re-establishes \<open>I\<close> and adds the calls \<open>ks\<close> to the
  trace, the loop over \<open>vs\<close> completes and adds \<open>ks\<close> once per element of \<open>vs\<close>.
\<close>

lemma py_for_kinds:
  assumes step: "\<And>v s. I s \<Longrightarrow>
      fst (py_seq (target v) body s) = Inr () \<and> I (snd (py_seq (target v) body s)) \<and>
      map kind (trace (snd (py_seq (target v) body s))) = map kind (trace s) @ ks"
  shows "I s \<Longrightarrow>
      fst (py_for vs target body s) = Inr () \<and> I (snd (py_for vs target body s)) \<and>
      map kind (trace (snd (py_for vs target body s))) =
        map kind (trace s) @ concat (replicate (length vs) ks)"
proof (induction vs arbitrary: s)
  case Nil
  then show ?case by (simp add: py_return_def)
next
  case (Cons v vs)
  let ?s1 = "snd (py_seq (target v) body s)"
  from step [OF Cons.prems, of v]
  have ok: "fst (py_seq (target v) body s) = Inr ()" and inv: "I ?s1"
    and tr: "map kind (trace ?s1) = map kind (trace s) @ ks"
    by simp_all
  have unfold: "py_for (v # vs) target body s = py_for vs target body ?s1"
    using ok py_seq_ok [of "py_seq (target v) body" s "py_for vs target body"]
    by (simp add: py_seq_assoc [symmetric])
  from Cons.IH [OF inv] tr show ?case
    by (simp add: unfold del: py_for.simps)
qed

lemma length_cumsum_from: "length (cumsum_from a vs) = length vs"
  by (induction vs arbitrary: a) simp_all

lemma length_linspace: "length (linspace a b k) = k"
  by (simp add: linspace_def)

lemmas arr_defs = arr_scale_def arr_shift_def arr_div_def arr_rsub_def arr_add_def arr_sub_def
  arr_mul_def cumsum_def


text \<open>
  One iteration of each plotting loop. The arrays handed to the plotting library have
  equal lengths, so no call is rejected.
\<close>

lemma body_33:
  assumes "ready_33 s"
  shows "fst (py_seq (assign (\<lambda>s. s\<lparr>v_i := Some v\<rparr>)) (exec_all [line_34, line_35, line_36]) s) = Inr () \<and>
     ready_33 (snd (py_seq (assign (\<lambda>s. s\<lparr>v_i := Some v\<rparr>)) (exec_all [line_34, line_35, line_36]) s)) \<and>
     map kind (trace (snd (py_seq (assign (\<lambda>s. s\<lparr>v_i := Some v\<rparr>)) (exec_all [line_34, line_35, line_36]) s))) =
       map kind (trace s) @ [KPlot, KFill]"
proof -
  from assms obtain xs where "v_x s = Some xs" "length xs = 500" "''numpy'' \<in> modules s" "''plt'' \<in> modules s"
    by (auto simp: ready_33_def)
  then show ?thesis
    by (simp add: ready_33_def line_34_def line_35_def line_36_def prog_defs arr_defs random_draw_def
        plt_plot_def plt_fill_between_def length_cumsum_from)
qed


lemma body_43:
  assumes "ready_43 s"
  shows "fst (py_seq (assign (\<lambda>s. s\<lparr>v_i := Some v\<rparr>)) (exec_all [line_44, line_45, line_46, line_47]) s) = Inr () \<and>
     ready_43 (snd (py_seq (assign (\<lambda>s. s\<lparr>v_i := Some v\<rparr>)) (exec_all [line_44, line_45, line_46, line_47]) s)) \<and>
     map kind (trace (snd (py_seq (assign (\<lambda>s. s\<lparr>v_i := Some v\<rparr>)) (exec_all [line_44, line_45, line_46, line_47]) s))) =
       map kind (trace s) @ [KPlot]"
proof -
  from assms obtain n a b where "v_n s = Some n" "n \<noteq> 0" "v_r0 s = Some a" "v_r1 s = Some b"
     "''numpy'' \<in> modules s" "''plt'' \<in> modules s"
    by (auto simp: ready_43_def)
  then show ?thesis
    by (simp add: ready_43_def line_44_def line_45_def line_46_def line_47_def prog_defs arr_defs
        plt_plot_def length_linspace)
qed

lemma line_33_kinds:
  assumes "ready_33 s"
  shows "fst (line_33 s) = Inr () \<and> ready_33 (snd (line_33 s)) \<and>
     map kind (trace (snd (line_33 s))) = map kind (trace s) @ [KPlot, KFill, KPlot, KFill, KPlot, KFill]"
  using py_for_kinds [of ready_33 "\<lambda>v. assign (\<lambda>s. s\<lparr>v_i := Some v\<rparr>)"
      "exec_all [line_34, line_35, line_36]" "[KPlot, KFill]" s "[1, 2, 3]", OF body_33 assms]
  by (simp add: line_33_def)

lemma replicate_singletons: "concat (replicate k [a]) = replicate k a"
  by (induction k) simp_all

lemma line_43_kinds:
  assumes "ready_43 s" "v_n s = Some n"
  shows "fst (line_43 s) = Inr () \<and> ready_43 (snd (line_43 s)) \<and>
     map kind (trace (snd (line_43 s))) = map kind (trace s) @ replicate (nat n) KPlot"
  using py_for_kinds [of ready_43 "\<lambda>v. assign (\<lambda>s. s\<lparr>v_i := Some v\<rparr>)"
      "exec_all [line_44, line_45, line_46, line_47]" "[KPlot]" s "py_range n", OF body_43 assms(1)]
    assms(2)
  by (simp add: line_43_def py_bind_def get_var_def py_range_def replicate_singletons)

section \<open>The statements up to the division\<close>

lemmas upto_defs = upto_division_def line_6_def line_9_def line_12_def line_17_def line_18_def
  line_19_def line_20_def line_22_def line_23_def line_24_def

lemma exec_all_append_ok:
  "fst (exec_all a s) = Inr () \<Longrightarrow> exec_all (a @ b) s = exec_all b (snd (exec_all a s))"
  by (induction a arbitrary: s) (simp_all add: py_return_def py_seq_def py_bind_def split: sum.splits)

lemma exec_all_append_raise:
  "fst (exec_all a s) = Inl e \<Longrightarrow> exec_all (a @ b) s = exec_all a s"
  by (induction a arbitrary: s) (simp_all add: py_return_def py_seq_def py_bind_def split: sum.splits)

lemma replicate_numeral: "replicate (numeral k) x = x # replicate (pred_numeral k) x"
  by (simp add: numeral_eq_Suc)

text \<open>
  The wait loop and the whole part up to the division, computed statement by statement.
  In string literals \<open>\<newline>\<close> is the line feed character \<open>CHR 0x0A\<close>.
\<close>

lemma line_18_effect:
  "''time'' \<in> modules s \<Longrightarrow> line_18 s =
     (Inr (), s\<lparr>trace := trace s @
        [Write ''Wait * * * * * \<newline>'', Sleep 1, Write ''Wait * * * * \<newline>'', Sleep 1,
         Write ''Wait * * * \<newline>'', Sleep 1, Write ''Wait * * \<newline>'', Sleep 1,
         Write ''Wait * \<newline>'', Sleep 1], v_i := Some 1\<rparr>)"
  by (simp add: upto_defs prog_defs replicate_numeral)

lemma upto_division_effect:
  "exec_all upto_division s =
     (Inl ZeroDivisionError,
      s\<lparr>modules := insert ''time'' (modules s),
        trace := trace s @
         [Write ''hello world!\<newline>'', Import ''time'',
          Write ''Wait * * * * * \<newline>'', Sleep 1, Write ''Wait * * * * \<newline>'', Sleep 1,
          Write ''Wait * * * \<newline>'', Sleep 1, Write ''Wait * * \<newline>'', Sleep 1,
          Write ''Wait * \<newline>'', Sleep 1, Write ''We divide 5 by zero:\<newline>''],
        v_multiline := Some (''Multi-line commands without\<newline>indent can be executed with the cursor\<newline>anywhere in the block''),
        v_i := Some 1\<rparr>)"
  by (simp add: upto_defs prog_defs replicate_numeral)

lemma run_script_effect: "run_script s = exec_all upto_division s"
  by (simp add: run_script_def script_def exec_all_append_raise [where e = ZeroDivisionError] upto_division_effect)

section \<open>The plotting statements\<close>

lemmas plot_defs = line_28_def line_29_def line_31_def line_32_def line_37_def line_41_def
  line_42_def line_48_def plt_figure_def plt_show_def random_draw_def

text \<open>
  The calls made by lines 28 to 48 run in order from any state in which the two packages
  can be imported: two imports, a figure, three plot and fill-between pairs, a show, a
  second figure, a hundred plots, a show.
\<close>

lemma plotting_kinds:
  assumes inst: "''numpy'' \<in> installed s" "''matplotlib.pyplot'' \<in> installed s"
  shows "fst (exec_all plotting s) = Inr () \<and>
   map kind (trace (snd (exec_all plotting s))) =
     map kind (trace s) @
     [KImport, KImport, KFigure, KPlot, KFill, KPlot, KFill, KPlot, KFill, KShow, KFigure] @
     replicate 100 KPlot @ [KShow]"
proof -
  define s1 where "s1 = snd (exec_all [line_28, line_29, line_31, line_32] s)"
  have a: "fst (exec_all [line_28, line_29, line_31, line_32] s) = Inr ()" "ready_33 s1"
    "map kind (trace s1) = map kind (trace s) @ [KImport, KImport, KFigure]"
    using inst by (simp_all add: s1_def ready_33_def plot_defs prog_defs length_linspace Let_def)
  define s2 where "s2 = snd (line_33 s1)"
  from line_33_kinds [OF a(2)]
  have b: "fst (exec_all [line_33] s1) = Inr ()" "snd (exec_all [line_33] s1) = s2" "ready_33 s2"
    "map kind (trace s2) = map kind (trace s1) @ [KPlot, KFill, KPlot, KFill, KPlot, KFill]"
    by (simp_all add: s2_def py_seq_def py_bind_def py_return_def split: sum.splits)
  define s3 where "s3 = snd (exec_all [line_37, line_41, line_42] s2)"
  have c: "fst (exec_all [line_37, line_41, line_42] s2) = Inr ()" "ready_43 s3" "v_n s3 = Some 100"
    "map kind (trace s3) = map kind (trace s2) @ [KShow, KFigure]"
    using b(3)
    by (simp_all add: s3_def ready_33_def ready_43_def plot_defs prog_defs Let_def)
  define s4 where "s4 = snd (line_43 s3)"
  from line_43_kinds [OF c(2) c(3)]
  have d: "fst (exec_all [line_43] s3) = Inr ()" "snd (exec_all [line_43] s3) = s4" "ready_43 s4"
    "map kind (trace s4) = map kind (trace s3) @ replicate 100 KPlot"
    by (simp_all add: s4_def py_seq_def py_bind_def py_return_def split: sum.splits)
  have e: "fst (exec_all [line_48] s4) = Inr ()"
    "map kind (trace (snd (exec_all [line_48] s4))) = map kind (trace s4) @ [KShow]"
    using d(3) by (simp_all add: ready_43_def plot_defs prog_defs)
  have split: "plotting = [line_28, line_29, line_31, line_32] @ [line_33] @
      [line_37, line_41, line_42] @ [line_43] @ [line_48]"
    by (simp add: plotting_def)
  have run: "exec_all plotting s = exec_all [line_48] s4"
    unfolding split
    using a(1) b(1,2) c(1) d(1,2)
    by (simp only: exec_all_append_ok s1_def [symmetric] s3_def [symmetric])
  show ?thesis
    unfolding run using a(3) b(4) c(4) d(4) e by simp
qed


text \<open>Where numpy is not installed, line 28 raises and nothing of the plotting part runs.\<close>

lemma plotting_without_numpy:
  "''numpy'' \<notin> installed s \<Longrightarrow> exec_all plotting s = (Inl (ModuleNotFoundError ''numpy''), s)"
  by (simp add: plotting_def line_28_def prog_defs)

text \<open>
  Keeping \<open>multiline\<close> is closed under sequencing and loops, and every primitive keeps it.
\<close>

lemma keeps_bind:
  "keeps_multiline m \<Longrightarrow> (\<And>v. keeps_multiline (f v)) \<Longrightarrow> keeps_multiline (py_bind m f)"
  by (simp add: keeps_multiline_def py_bind_def split: sum.splits)

lemma keeps_seq:
  "keeps_multiline m \<Longrightarrow> keeps_multiline k \<Longrightarrow> keeps_multiline (py_seq m k)"
  by (simp add: py_seq_def keeps_bind)

lemma keeps_exec_all:
  "list_all keeps_multiline sts \<Longrightarrow> keeps_multiline (exec_all sts)"
proof (induction sts)
  case Nil
  show ?case by (simp add: keeps_multiline_def py_return_def)
next
  case (Cons st sts)
  then have "keeps_multiline (py_seq st (exec_all sts))"
    by (simp add: keeps_seq)
  then show ?case by (simp add: keeps_multiline_def)
qed

lemma keeps_for:
  assumes "\<And>v. keeps_multiline (target v)" "keeps_multiline body"
  shows "keeps_multiline (py_for vs target body)"
proof (induction vs)
  case Nil
  show ?case by (simp add: keeps_multiline_def py_return_def)
next
  case (Cons v vs)
  from assms Cons have "keeps_multiline (py_seq (target v) (py_seq body (py_for vs target body)))"
    by (simp add: keeps_seq)
  then show ?case by (simp add: keeps_multiline_def)
qed

lemma keeps_basic:
  "keeps_multiline (emit e)"
  "keeps_multiline (py_print args)"
  "keeps_multiline (get_var name field)"
  "keeps_multiline (py_module name)"
  "keeps_multiline (py_import name alias)"
  "keeps_multiline (py_return v)"
  "keeps_multiline (py_raise ex)"
  "keeps_multiline (py_truediv a b)"
  "keeps_multiline (time_sleep d)"
  "keeps_multiline (random_draw k)"
  "keeps_multiline plt_figure"
  "keeps_multiline plt_show"
  "keeps_multiline (plt_plot x y c al lw)"
  "keeps_multiline (plt_fill_between x y1 y2 a')"
  by (simp_all add: keeps_multiline_def prog_defs random_draw_def plt_figure_def plt_show_def
      plt_plot_def plt_fill_between_def Let_def split: option.splits)

lemma keeps_assign:
  "(\<And>s. v_multiline (upd s) = v_multiline s) \<Longrightarrow> keeps_multiline (assign upd)"
  by (simp add: keeps_multiline_def assign_def)

lemmas keeps_intros = keeps_bind keeps_seq keeps_for keeps_exec_all keeps_basic keeps_assign

lemma keeps_lines:
  "keeps_multiline line_17" "keeps_multiline line_18" "keeps_multiline line_22"
  "keeps_multiline line_28" "keeps_multiline line_29" "keeps_multiline line_31"
  "keeps_multiline line_32" "keeps_multiline line_33" "keeps_multiline line_37"
  "keeps_multiline line_41" "keeps_multiline line_42" "keeps_multiline line_43"
  "keeps_multiline line_48"
  by (auto simp: line_17_def line_18_def line_19_def line_20_def line_22_def line_23_def
      line_24_def line_28_def line_29_def line_31_def line_32_def line_33_def line_34_def
      line_35_def line_36_def line_37_def line_41_def line_42_def line_43_def line_44_def
      line_45_def line_46_def line_47_def line_48_def
      intro!: keeps_intros split: list.splits)

section \<open>The properties of the script\<close>

text \<open>
  Claim C1 says that the script, run from top to bottom, reaches both calls of
  \<open>plt.show()\<close>. It does not: the plain run ends with the ZeroDivisionError of line 24
  and its trace holds no figure and no show call.
\<close>

theorem script_stops_before_show:
  "fst (run_script plain_start) = Inl ZeroDivisionError \<and>
   count_list (map kind (trace (snd (run_script plain_start)))) KShow = 0 \<and>
   count_list (map kind (trace (snd (run_script plain_start)))) KFigure = 0"
  by (simp add: run_script_effect upto_division_effect plain_start_def initial_def)

text \<open>
  Claim C1, amended: from any state the run of the whole script ends with the
  ZeroDivisionError of line 24 and adds no show call. The statements after that block
  (lines 28 to 48), run in order on their own from a state in which numpy and
  matplotlib.pyplot can be imported, complete and make exactly these calls, in this
  order: the two imports, a figure, three times a plot followed by a fill-between, a
  show, a second figure, one hundred plots, a second show.
\<close>

theorem plotting_part_reaches_both_shows:
  "fst (run_script s) = Inl ZeroDivisionError \<and>
   count_list (map kind (trace (snd (run_script s)))) KShow = count_list (map kind (trace s)) KShow \<and>
   (''numpy'' \<in> installed s \<and> ''matplotlib.pyplot'' \<in> installed s \<longrightarrow>
    fst (exec_all plotting s) = Inr () \<and>
    map kind (trace (snd (exec_all plotting s))) =
      map kind (trace s) @
      [KImport, KImport, KFigure, KPlot, KFill, KPlot, KFill, KPlot, KFill, KShow, KFigure] @
      replicate 100 KPlot @ [KShow])"
proof -
  have stop: "fst (run_script s) = Inl ZeroDivisionError"
    "count_list (map kind (trace (snd (run_script s)))) KShow = count_list (map kind (trace s)) KShow"
    by (simp_all add: run_script_effect upto_division_effect)
  from stop plotting_kinds [of s] show ?thesis by blast
qed

text \<open>
  The plain start, where both packages are installed, satisfies the condition of the
  amended claim C1: run from it, lines 28 to 48 complete with the two figures drawn and
  shown.
\<close>

theorem plotting_part_reaches_both_shows_witness:
  "''numpy'' \<in> installed plain_start \<and> ''matplotlib.pyplot'' \<in> installed plain_start \<and>
   fst (exec_all plotting plain_start) = Inr () \<and>
   map kind (trace (snd (exec_all plotting plain_start))) =
     [KImport, KImport, KFigure, KPlot, KFill, KPlot, KFill, KPlot, KFill, KShow, KFigure] @
     replicate 100 KPlot @ [KShow]"
proof -
  have h: "''numpy'' \<in> installed plain_start \<and> ''matplotlib.pyplot'' \<in> installed plain_start"
    by (simp add: plain_start_def initial_def)
  have t: "trace plain_start = []"
    by (simp add: plain_start_def initial_def)
  from plotting_part_reaches_both_shows [of plain_start] h t show ?thesis
    by simp
qed

text \<open>
  Claim C2: the statement of line 24 raises ZeroDivisionError, and nothing catches it:
  the conditional block of line 22 and the run of the whole script, from any state, end
  with that same exception.
\<close>

theorem division_by_zero_unhandled:
  "fst (line_24 s) = Inl ZeroDivisionError \<and>
   fst (line_22 s) = Inl ZeroDivisionError \<and>
   fst (run_script s) = Inl ZeroDivisionError"
  by (simp add: run_script_effect upto_division_effect line_22_def line_23_def line_24_def prog_defs)

text \<open>
  Claim C3: evaluating the expression line \<open>1+2\<close> gives the value 3 and changes nothing.
\<close>

theorem line_9_value: "line_9 s = (Inr 3, s)"
  by (simp add: line_9_def py_return_def)

text \<open>
  Claim C4: the greeting statement completes and its only effect is to write the text
  \<open>hello world!\<close> followed by a line feed to standard output.
\<close>

theorem greeting_output:
  "line_6 s = (Inr (), s\<lparr>trace := trace s @ [Write ''hello world!\<newline>'']\<rparr>) \<and>
   stdout_of (snd (line_6 s)) = stdout_of s @ ''hello world!\<newline>''"
  by (simp add: line_6_def stdout_of_def prog_defs)

text \<open>
  Claim C5: with the \<open>time\<close> module imported, the wait loop completes after going
  through the values 5, 4, 3, 2, 1: its trace is, for each value in that order, one
  line written and then one sleep of one second, five pairs in all. The sleep is a call
  in the one sequential trace: the next line is written only after it.
\<close>

theorem wait_loop_iterations:
  assumes "''time'' \<in> modules s"
  shows "fst (line_18 s) = Inr () \<and>
     trace (snd (line_18 s)) = trace s @
       concat (map (\<lambda>i. [Write (''Wait'' @ '' '' @ str_mul ''* '' i @ ''\<newline>''), Sleep 1])
                   [5, 4, 3, 2, 1]) \<and>
     map kind (trace (snd (line_18 s))) = map kind (trace s) @ concat (replicate 5 [KWrite, KSleep])"
  using assms by (simp add: line_18_effect str_mul_def replicate_numeral)

text \<open>
  The state of the plain run before line 18 satisfies the hypothesis of claim C5.
\<close>

theorem wait_loop_iterations_witness:
  "''time'' \<in> modules before_line_18 \<and>
   fst (line_18 before_line_18) = Inr () \<and>
   trace (snd (line_18 before_line_18)) =
     [Write ''hello world!\<newline>'', Import ''time'',
      Write ''Wait * * * * * \<newline>'', Sleep 1, Write ''Wait * * * * \<newline>'', Sleep 1,
      Write ''Wait * * * \<newline>'', Sleep 1, Write ''Wait * * \<newline>'', Sleep 1,
      Write ''Wait * \<newline>'', Sleep 1]"
proof -
  have h: "''time'' \<in> modules before_line_18"
    by (simp add: before_line_18_def upto_defs prog_defs)
  have t: "trace before_line_18 = [Write ''hello world!\<newline>'', Import ''time'']"
    by (simp add: before_line_18_def plain_start_def initial_def upto_defs prog_defs)
  from wait_loop_iterations [OF h] h t show ?thesis
    by (simp add: str_mul_def replicate_numeral)
qed

text \<open>
  Claim C6: in a state as lines 28 to 32 leave it (modules imported, \<open>x\<close> an array of
  500 points) the first loop completes and makes exactly three pairs of one plot and one
  fill-between call; in a state as lines 41 and 42 leave it (\<open>n\<close> is 100, \<open>r0\<close> and
  \<open>r1\<close> bound) the second loop completes and makes exactly 100 plot calls.
\<close>

theorem plot_loops_iterations:
  assumes "''numpy'' \<in> modules s1" "''plt'' \<in> modules s1" "v_x s1 = Some xs" "length xs = 500"
    and "''numpy'' \<in> modules s2" "''plt'' \<in> modules s2" "v_n s2 = Some 100"
      "v_r0 s2 = Some a" "v_r1 s2 = Some b"
  shows "fst (line_33 s1) = Inr () \<and>
     map kind (trace (snd (line_33 s1))) =
       map kind (trace s1) @ [KPlot, KFill, KPlot, KFill, KPlot, KFill] \<and>
     fst (line_43 s2) = Inr () \<and>
     map kind (trace (snd (line_43 s2))) = map kind (trace s2) @ replicate 100 KPlot"
proof -
  have "ready_33 s1" using assms(1-4) by (simp add: ready_33_def)
  moreover have "ready_43 s2" using assms(5-9) by (simp add: ready_43_def)
  ultimately show ?thesis
    using line_33_kinds [of s1] line_43_kinds [of s2 100] assms(7) by simp
qed

text \<open>
  The states reached by running lines 28 to 32, and lines 28, 29, 41 and 42, from the
  plain start satisfy the hypotheses of claim C6.
\<close>

theorem plot_loops_iterations_witness:
  "''numpy'' \<in> modules before_line_33 \<and> ''plt'' \<in> modules before_line_33 \<and>
   v_x before_line_33 = Some (linspace 0 10 500) \<and> length (linspace 0 10 500) = 500 \<and>
   ''numpy'' \<in> modules before_line_43 \<and> ''plt'' \<in> modules before_line_43 \<and>
   v_n before_line_43 = Some 100 \<and> v_r0 before_line_43 = Some 0 \<and> v_r1 before_line_43 = Some 0 \<and>
   fst (line_33 before_line_33) = Inr () \<and>
   map kind (trace (snd (line_33 before_line_33))) =
     [KImport, KImport, KFigure, KPlot, KFill, KPlot, KFill, KPlot, KFill] \<and>
   fst (line_43 before_line_43) = Inr () \<and>
   map kind (trace (snd (line_43 before_line_43))) =
     [KImport, KImport, KFigure] @ replicate 100 KPlot"
proof -
  have h1: "''numpy'' \<in> modules before_line_33" "''plt'' \<in> modules before_line_33"
    "v_x before_line_33 = Some (linspace 0 10 500)" "length (linspace 0 10 500) = 500"
    by (simp_all add: before_line_33_def plain_start_def initial_def plot_defs prog_defs
        length_linspace Let_def)
  have h2: "''numpy'' \<in> modules before_line_43" "''plt'' \<in> modules before_line_43"
    "v_n before_line_43 = Some 100" "v_r0 before_line_43 = Some 0" "v_r1 before_line_43 = Some 0"
    by (simp_all add: before_line_43_def plain_start_def initial_def plot_defs prog_defs Let_def
        upt_conv_Cons)
  have t: "map kind (trace before_line_33) = [KImport, KImport, KFigure]"
    "map kind (trace before_line_43) = [KImport, KImport, KFigure]"
    by (simp_all add: before_line_33_def before_line_43_def plain_start_def initial_def
        plot_defs prog_defs Let_def)
  from plot_loops_iterations [OF h1 h2] h1 h2 t show ?thesis
    by simp
qed

text \<open>
  Claim C7: the assignment of line 12 binds \<open>multiline\<close> to the three-line text; the
  statements after it are lines 17 to 48, none of which changes the variable from any
  state; and the variable holds that text when the run of the script ends.
\<close>

theorem multiline_value_kept:
  "v_multiline (snd (line_12 s)) =
     Some ''Multi-line commands without\<newline>indent can be executed with the cursor\<newline>anywhere in the block'' \<and>
   script = [line_6, py_discard line_9, line_12] @
     [line_17, line_18, line_22, line_28, line_29, line_31, line_32, line_33, line_37,
      line_41, line_42, line_43, line_48] \<and>
   list_all (\<lambda>st. v_multiline (snd (st s')) = v_multiline s')
     [line_17, line_18, line_22, line_28, line_29, line_31, line_32, line_33, line_37,
      line_41, line_42, line_43, line_48] \<and>
   v_multiline (snd (run_script s)) =
     Some ''Multi-line commands without\<newline>indent can be executed with the cursor\<newline>anywhere in the block''"
proof -
  have set: "v_multiline (snd (line_12 s)) =
     Some ''Multi-line commands without\<newline>indent can be executed with the cursor\<newline>anywhere in the block''"
    by (simp add: line_12_def assign_def)
  have parts: "script = [line_6, py_discard line_9, line_12] @
     [line_17, line_18, line_22, line_28, line_29, line_31, line_32, line_33, line_37,
      line_41, line_42, line_43, line_48]"
    by (simp add: script_def upto_division_def plotting_def)
  have later: "list_all (\<lambda>st. v_multiline (snd (st s')) = v_multiline s')
     [line_17, line_18, line_22, line_28, line_29, line_31, line_32, line_33, line_37,
      line_41, line_42, line_43, line_48]"
    using keeps_lines [unfolded keeps_multiline_def] by simp
  have final: "v_multiline (snd (run_script s)) =
     Some ''Multi-line commands without\<newline>indent can be executed with the cursor\<newline>anywhere in the block''"
    by (simp add: run_script_effect upto_division_effect)
  from set parts later final show ?thesis by blast
qed

text \<open>
  Claim C8: two runs that start with any command lines, environments and file systems
  (and any installed packages, float formatting and random stream) write the same standard output up to the
  ZeroDivisionError: the greeting, the five wait lines and the line announcing the
  division.
\<close>

theorem stdout_independent_of_environment:
  "stdout_of (snd (run_script (initial av1 env1 fs1 inst1 fr1 g1))) =
     stdout_of (snd (run_script (initial av2 env2 fs2 inst2 fr2 g2))) \<and>
   stdout_of (snd (run_script (initial av1 env1 fs1 inst1 fr1 g1))) =
     ''hello world!\<newline>'' @
     ''Wait * * * * * \<newline>'' @ ''Wait * * * * \<newline>'' @ ''Wait * * * \<newline>'' @
     ''Wait * * \<newline>'' @ ''Wait * \<newline>'' @
     ''We divide 5 by zero:\<newline>'' \<and>
   fst (run_script (initial av1 env1 fs1 inst1 fr1 g1)) = Inl ZeroDivisionError"
  by (simp add: run_script_effect upto_division_effect stdout_of_def initial_def)

text \<open>
  Claim C9: line 24 raises before it writes: it leaves the state, and so standard output,
  as it found it. The block of line 22 therefore ends with the exception, having
  written exactly the line \<open>We divide 5 by zero:\<close>.
\<close>

theorem division_precedes_output:
  "line_24 s = (Inl ZeroDivisionError, s) \<and>
   line_22 s = (Inl ZeroDivisionError, s\<lparr>trace := trace s @ [Write ''We divide 5 by zero:\<newline>'']\<rparr>) \<and>
   stdout_of (snd (line_22 s)) = stdout_of s @ ''We divide 5 by zero:\<newline>''"
  by (simp add: line_22_def line_23_def line_24_def stdout_of_def prog_defs)

text \<open>
  Claim C10: with the \<open>time\<close> module imported, the wait loop writes exactly five lines,
  the k-th being \<open>Wait\<close>, a space, \<open>6 - k\<close> copies of the two characters of \<open>* \<close>,
  and a line feed.
\<close>

theorem wait_loop_output:
  assumes "''time'' \<in> modules s"
  shows "stdout_of (snd (line_18 s)) = stdout_of s @
       concat (map (\<lambda>k. ''Wait'' @ '' '' @ concat (replicate (6 - k) ''* '') @ ''\<newline>'')
                   [1, 2, 3, 4, 5]) \<and>
     stdout_of (snd (line_18 s)) = stdout_of s @
       ''Wait * * * * * \<newline>'' @ ''Wait * * * * \<newline>'' @ ''Wait * * * \<newline>'' @
       ''Wait * * \<newline>'' @ ''Wait * \<newline>''"
  using assms by (simp add: line_18_effect stdout_of_def replicate_numeral)

text \<open>
  The state right after \<open>import time\<close> satisfies the hypothesis of claim C10.
\<close>

theorem wait_loop_output_witness:
  "''time'' \<in> modules (snd (line_17 plain_start)) \<and>
   stdout_of (snd (line_18 (snd (line_17 plain_start)))) =
     ''Wait * * * * * \<newline>'' @ ''Wait * * * * \<newline>'' @ ''Wait * * * \<newline>'' @
     ''Wait * * \<newline>'' @ ''Wait * \<newline>''"
proof -
  have h: "''time'' \<in> modules (snd (line_17 plain_start))"
    by (simp add: line_17_def py_import_def builtin_modules_def)
  have t: "stdout_of (snd (line_17 plain_start)) = []"
    by (simp add: line_17_def py_import_def builtin_modules_def plain_start_def initial_def
        stdout_of_def)
  from wait_loop_output [OF h, THEN conjunct2] h t show ?thesis
    by simp
qed

end
